theory Spec2Isabelle
  imports Complex_Main "HOL-Library.Sublist"
begin

section \<open>Python exceptions and tensors\<close>

text \<open>
  Every \<open>raise\<close> and failing \<open>assert\<close> of the sources is a value of \<open>pyerr\<close>; a
  function that may raise returns \<open>pyerr + 'a\<close> with \<open>Inl\<close> for the exception.
  \<open>External\<close> stands for any exception raised inside a library that is called but
  not part of the sources.
\<close>

datatype pyerr =
    ValueError string
  | AssertionError string
  | IndexError string
  | KeyError string
  | TypeError string
  | ZeroDivisionError
  | RuntimeError string
  | FileNotFoundError string
  | IsADirectoryError string
  | External string

text \<open>
  A tensor is its shape and its entries in row-major order. Only the shape is inspected
  by the code modelled here; the entry type stays a parameter.
\<close>

record 'a tensor =
  shape :: "nat list"
  entries :: "'a list"

text \<open>\<open>X.shape[-2]\<close>: indexing a shape tuple of fewer than two dimensions raises.\<close>

definition shape_at_m2 :: "'a tensor \<Rightarrow> pyerr + nat" where
  "shape_at_m2 X =
     (let n = length (shape X)
      in if n < 2 then Inl (IndexError ''tuple index out of range'')
         else Inr (shape X ! (n - 2)))"

text \<open>
  \<open>X.squeeze(-2)\<close>: the dimension before the last is removed when its size is 1 and
  the tensor is returned unchanged otherwise; on a tensor of fewer than two dimensions
  the dimension index is out of range.
\<close>

definition squeeze_m2 :: "'a tensor \<Rightarrow> pyerr + 'a tensor" where
  "squeeze_m2 X =
     (let n = length (shape X)
      in if n < 2 then Inl (IndexError ''Dimension out of range'')
         else if shape X ! (n - 2) = 1
           then Inr (X\<lparr>shape := take (n - 2) (shape X) @ drop (n - 1) (shape X)\<rparr>)
           else Inr X)"

section \<open>The BoTorch wrapper \<open>BotorchGP\<close> (model/botorch.py)\<close>

text \<open>
  The wrapped deep GP is not part of the sources. It is a state \<open>'b\<close> together with
  a call function: given the state, the input, the hidden-sampling method and the
  resampling flag, it returns the predictive distribution (or raises) and its next state.
  \<open>base_calls\<close> records the invocations of the wrapped model in order; it is only
  observed, never read by the code.
\<close>

type_synonym ('a, 'b, 'r) base_call =
  "'b \<Rightarrow> 'a tensor \<Rightarrow> string \<Rightarrow> bool \<Rightarrow> (pyerr + 'r) \<times> 'b"

record ('a, 'b) botorch_gp =
  base_model :: 'b
  posterior_sample_method :: string
  resample_weights_attr :: bool
  training :: bool
  base_calls :: "('a tensor \<times> string \<times> bool) list"

text \<open>\<open>__init__\<close>: the resampling flag starts as \<open>True\<close>; a torch module starts in training mode.\<close>

definition botorch_gp_init :: "'b \<Rightarrow> string \<Rightarrow> ('a, 'b) botorch_gp" where
  "botorch_gp_init b method =
     \<lparr>base_model = b, posterior_sample_method = method, resample_weights_attr = True,
      training = True, base_calls = []\<rparr>"

definition forward ::
  "('a, 'b, 'r) base_call \<Rightarrow> ('a, 'b) botorch_gp \<Rightarrow> 'a tensor \<Rightarrow> string \<Rightarrow> bool
     \<Rightarrow> (pyerr + 'r) \<times> ('a, 'b) botorch_gp" where
  "forward call gp X sample_hidden resample =
     (case shape_at_m2 X of
        Inl e \<Rightarrow> (Inl e, gp)
      | Inr d \<Rightarrow>
          (case (if d = 1 then squeeze_m2 X else Inr X) of
             Inl e \<Rightarrow> (Inl e, gp)
           | Inr X' \<Rightarrow>
               (let (r, b') = call (base_model gp) X' sample_hidden resample
                in (r, gp\<lparr>base_model := b',
                           base_calls := base_calls gp @ [(X', sample_hidden, resample)]\<rparr>))))"











section \<open>Name resolvers and the acquisition optimiser (bo/bo.py)\<close>

datatype acqf_class = LogExpectedImprovement | ExpectedImprovement

datatype manifold_class = Sphere

datatype optimizer_class = SteepestDescent

definition acqf_class_from_name :: "string \<Rightarrow> pyerr + acqf_class" where
  "acqf_class_from_name name =
     (if name = ''log_expected_improvement'' then Inr LogExpectedImprovement
      else if name = ''expected_improvement'' then Inr ExpectedImprovement
      else Inl (ValueError (''Unknown acquisition function '' @ name)))"

definition manifold_class_from_name :: "string \<Rightarrow> pyerr + manifold_class" where
  "manifold_class_from_name name =
     (if name = ''sphere'' then Inr Sphere
      else Inl (ValueError (''Unknown manifold '' @ name)))"

definition optimizer_class_from_name :: "string \<Rightarrow> pyerr + optimizer_class" where
  "optimizer_class_from_name name =
     (if name = ''steepest_descent'' then Inr SteepestDescent
      else Inl (ValueError (''Unknown optimizer '' @ name)))"

text \<open>
  \<open>BOArguments\<close>. The last three fields are not declared by the dataclass in bo/bo.py but
  are read from it by \<open>run_bo\<close>; \<open>switch_to_deep_iter\<close> may be \<open>None\<close>.
\<close>

record bo_arguments =
  manifold_name :: string
  manifold_dim :: int
  num_iter :: int
  num_restarts :: int
  raw_samples :: int
  q :: int
  maximize :: bool
  acqf_name :: string
  optimizer_name :: string
  optimizer_max_iterations :: int
  optimizer_verbosity :: int
  switch_to_deep_iter :: "int option"
  kmeans_inducing :: bool
  kmeans_inducing_num :: int

text \<open>
  The defaults of the dataclass; the three undeclared fields have none and are set to
  \<open>None\<close>, \<open>False\<close> and \<open>0\<close>.
\<close>

definition default_bo_arguments :: bo_arguments where
  "default_bo_arguments =
     \<lparr>manifold_name = ''sphere'', manifold_dim = 2, num_iter = 200, num_restarts = 5,
      raw_samples = 100, q = 1, maximize = False, acqf_name = ''log_expected_improvement'',
      optimizer_name = ''steepest_descent'', optimizer_max_iterations = 100,
      optimizer_verbosity = 0, switch_to_deep_iter = None, kmeans_inducing = False,
      kmeans_inducing_num = 0\<rparr>"

text \<open>
  The properties \<open>manifold\<close> and \<open>optimizer\<close> resolve the name each time they are read
  and instantiate the class: the manifold with the dimension of the embedding space, the
  optimiser with its iteration cap and verbosity.
\<close>

datatype manifold_obj = ManifoldObj manifold_class int

datatype optimizer_obj = OptimizerObj optimizer_class int int

definition manifold :: "bo_arguments \<Rightarrow> pyerr + manifold_obj" where
  "manifold ba =
     (case manifold_class_from_name (manifold_name ba) of
        Inl e \<Rightarrow> Inl e
      | Inr c \<Rightarrow> Inr (ManifoldObj c (manifold_dim ba + 1)))"

definition optimizer :: "bo_arguments \<Rightarrow> pyerr + optimizer_obj" where
  "optimizer ba =
     (case optimizer_class_from_name (optimizer_name ba) of
        Inl e \<Rightarrow> Inl e
      | Inr c \<Rightarrow> Inr (OptimizerObj c (optimizer_max_iterations ba) (optimizer_verbosity ba)))"

text \<open>
  A floating-point coordinate is a number or NaN. The BoTorch and Pymanopt functions
  called by the optimiser are parameters: seed generation, the local refinement of the
  seeds on the manifold, and BoTorch's \<open>optimize_acqf\<close>, which receives the refinement as
  a callback together with the seeds.
\<close>

datatype fl = NaN | Fin real

definition isnan_any :: "fl tensor \<Rightarrow> bool" where
  "isnan_any X = (NaN \<in> set (entries X))"

record ('acq, 'cand, 'res) optim_env =
  gen_batch_initial_conditions ::
    "'acq \<Rightarrow> int \<Rightarrow> int \<Rightarrow> int \<Rightarrow> manifold_obj \<Rightarrow> pyerr + fl tensor"
  gen_candidates_manifold ::
    "fl tensor \<Rightarrow> 'acq \<Rightarrow> manifold_obj \<Rightarrow> optimizer_obj \<Rightarrow> pyerr + 'cand"
  optimize_acqf ::
    "'acq \<Rightarrow> int \<Rightarrow> int \<Rightarrow> int \<Rightarrow> (fl tensor \<Rightarrow> 'acq \<Rightarrow> pyerr + 'cand) \<Rightarrow> fl tensor
       \<Rightarrow> pyerr + 'res"

text \<open>\<open>ManifoldGenCandidates.__call__\<close>: both properties are read when the callback runs.\<close>

definition ManifoldGenCandidates ::
  "('acq, 'cand, 'res) optim_env \<Rightarrow> bo_arguments \<Rightarrow> fl tensor \<Rightarrow> 'acq \<Rightarrow> pyerr + 'cand" where
  "ManifoldGenCandidates env ba initial_conditions acquisition_function =
     (case manifold ba of
        Inl e \<Rightarrow> Inl e
      | Inr m \<Rightarrow>
          (case optimizer ba of
             Inl e \<Rightarrow> Inl e
           | Inr opt \<Rightarrow>
               gen_candidates_manifold env initial_conditions acquisition_function m opt))"

text \<open>
  \<open>optimize_acqf_manifold\<close>. The manifold is resolved while the arguments of the seed
  generator are evaluated; the assertion on the seeds sits between seed generation and
  the call of \<open>optimize_acqf\<close>. The placeholder bounds of both calls are not modelled.
\<close>

definition optimize_acqf_manifold ::
  "('acq, 'cand, 'res) optim_env \<Rightarrow> 'acq \<Rightarrow> bo_arguments \<Rightarrow> pyerr + 'res" where
  "optimize_acqf_manifold env acq_function ba =
     (case manifold ba of
        Inl e \<Rightarrow> Inl e
      | Inr m \<Rightarrow>
          (case gen_batch_initial_conditions env acq_function (q ba) (num_restarts ba)
                  (raw_samples ba) m of
             Inl e \<Rightarrow> Inl e
           | Inr batch_initial_conditions \<Rightarrow>
               if isnan_any batch_initial_conditions
               then Inl (AssertionError ''Generated nan batch initial conditions'')
               else
                 (case squeeze_m2 batch_initial_conditions of
                    Inl e \<Rightarrow> Inl e
                  | Inr ic \<Rightarrow>
                      optimize_acqf env acq_function (q ba) (num_restarts ba) (raw_samples ba)
                        (ManifoldGenCandidates env ba) ic)))"

section \<open>Model construction (experiment_utils/model.py)\<close>

record model_arguments =
  space_name :: string
  space_dim :: int
  model_name :: string
  num_hidden :: int
  num_inducing :: int
  num_eigenfunctions :: int
  learn_inducing_locations :: bool
  optimize_nu :: bool
  nu :: real
  tangent_to_manifold :: string
  project_to_tangent :: string
  parametrised_frame :: bool
  rotated_frame :: bool
  outputscale_mean :: real

definition default_model_arguments :: model_arguments where
  "default_model_arguments =
     \<lparr>space_name = ''hypersphere'', space_dim = 2, model_name = ''geometric_manifold'',
      num_hidden = 1, num_inducing = 60, num_eigenfunctions = 20,
      learn_inducing_locations = False, optimize_nu = True, nu = 5 / 2,
      tangent_to_manifold = ''exp'', project_to_tangent = ''intrinsic'',
      parametrised_frame = False, rotated_frame = False, outputscale_mean = 1\<rparr>"

datatype space_obj = Hypersphere int

definition space :: "model_arguments \<Rightarrow> pyerr + space_obj" where
  "space ma =
     (if space_name ma = ''hypersphere'' then Inr (Hypersphere (space_dim ma))
      else Inl (ValueError (''Unknown space: '' @ space_name ma)))"

text \<open>
  \<open>sphere_uniform_grid\<close> (mdgp.utils) is not part of the sources: it is the parameter
  \<open>grid\<close>, from the number of points to the points.
\<close>

definition get_inducing_points :: "(int \<Rightarrow> 'pts) \<Rightarrow> int \<Rightarrow> space_obj \<Rightarrow> pyerr + 'pts" where
  "get_inducing_points grid n sp =
     (case sp of Hypersphere d \<Rightarrow>
        if d = 2 then Inr (grid n) else Inl (ValueError ''Unknown space''))"

text \<open>
  \<open>get_outputscale_prior\<close>: the rate is \<open>1 / outputscale_mean\<close>; Python raises
  ZeroDivisionError on a zero divisor. The division is exact here, rounding is not
  modelled.
\<close>

datatype prior = GammaPrior real real

definition get_outputscale_prior :: "real \<Rightarrow> pyerr + prior" where
  "get_outputscale_prior m =
     (if m = 0 then Inl ZeroDivisionError else Inr (GammaPrior 1 (1 / m)))"

text \<open>
  The three deep GP classes are constructors holding the keyword arguments they are
  given, in the order of the source. \<open>EuclideanDeepGP\<close> is given no space.
\<close>

datatype 'pts deep_gp =
    GeometricManifoldDeepGP space_obj 'pts prior int int bool bool real string string
  | EuclideanManifoldDeepGP space_obj 'pts prior int bool real string string
  | EuclideanDeepGP 'pts prior int real bool

definition create_model :: "(int \<Rightarrow> 'pts) \<Rightarrow> model_arguments \<Rightarrow> pyerr + 'pts deep_gp" where
  "create_model grid ma =
     (let sp = Hypersphere 2;
          inducing_points = grid (num_inducing ma);
          name = model_name ma
      in case get_outputscale_prior (outputscale_mean ma) of
           Inl e \<Rightarrow> Inl e
         | Inr outputscale_prior \<Rightarrow>
             if name = ''geometric_manifold'' then
               Inr (GeometricManifoldDeepGP sp inducing_points outputscale_prior
                      (num_hidden ma) (num_eigenfunctions ma) (learn_inducing_locations ma)
                      (optimize_nu ma) (nu ma) (project_to_tangent ma) (tangent_to_manifold ma))
             else if name = ''euclidean_manifold'' then
               Inr (EuclideanManifoldDeepGP sp inducing_points outputscale_prior
                      (num_hidden ma) (learn_inducing_locations ma) (nu ma)
                      (project_to_tangent ma) (tangent_to_manifold ma))
             else if name = ''euclidean'' then
               Inr (EuclideanDeepGP inducing_points outputscale_prior
                      (num_hidden ma) (nu ma) (learn_inducing_locations ma))
             else Inl (ValueError (''Unknown model name: '' @ name)))"

text \<open>The space and the inducing points a constructed model was given.\<close>

fun model_space :: "'pts deep_gp \<Rightarrow> space_obj option" where
  "model_space (GeometricManifoldDeepGP sp ip pr nh ne li nuo nu' pt tm) = Some sp"
| "model_space (EuclideanManifoldDeepGP sp ip pr nh li nu' pt tm) = Some sp"
| "model_space (EuclideanDeepGP ip pr nh nu' li) = None"

fun model_inducing_points :: "'pts deep_gp \<Rightarrow> 'pts" where
  "model_inducing_points (GeometricManifoldDeepGP sp ip pr nh ne li nuo nu' pt tm) = ip"
| "model_inducing_points (EuclideanManifoldDeepGP sp ip pr nh li nu' pt tm) = ip"
| "model_inducing_points (EuclideanDeepGP ip pr nh nu' li) = ip"

section \<open>The optimisation loop \<open>run_bo\<close> (notebooks/bo_experiment/run.py)\<close>

text \<open>
  The observations are a list of points \<open>x\<close> and the list \<open>y\<close> of their values.
  The values are floating-point numbers: a number or NaN. A comparison with NaN is
  false, and the minimum of two values of which one is NaN is NaN.
\<close>

definition fl_less :: "fl \<Rightarrow> fl \<Rightarrow> bool" where
  "fl_less a b = (case a of NaN \<Rightarrow> False | Fin x \<Rightarrow> (case b of NaN \<Rightarrow> False | Fin y \<Rightarrow> x < y))"

definition fl_min :: "fl \<Rightarrow> fl \<Rightarrow> fl" where
  "fl_min a b = (case a of NaN \<Rightarrow> NaN | Fin x \<Rightarrow> (case b of NaN \<Rightarrow> NaN | Fin y \<Rightarrow> Fin (min x y)))"

text \<open>
  \<open>torch.min\<close> and \<open>torch.argmin\<close> on the values: the minimum and the index of its first
  occurrence; with a NaN among the values the minimum is NaN and the index is that of
  the first NaN. Both raise on an empty tensor.
\<close>

definition tensor_min :: "fl list \<Rightarrow> pyerr + fl" where
  "tensor_min ys =
     (case ys of
        [] \<Rightarrow> Inl (IndexError ''min(): expected a non-empty tensor'')
      | v # vs \<Rightarrow> Inr (fold fl_min vs v))"

definition tensor_argmin :: "fl list \<Rightarrow> pyerr + nat" where
  "tensor_argmin ys =
     (case ys of
        [] \<Rightarrow> Inl (IndexError ''argmin(): expected a non-empty tensor'')
      | v # vs \<Rightarrow> Inr (length (takeWhile (\<lambda>u. u \<noteq> fold fl_min vs v) ys)))"

text \<open>\<open>FitArguments\<close> is not part of the sources; these are the fields \<open>run_bo\<close> reads.\<close>

record fit_arguments =
  lr :: real
  num_steps :: int
  full_every_n_steps :: int
  partial_num_steps :: int

text \<open>
  The collaborators of the loop that are not part of the sources: the objective
  (evaluated point by point, it may raise), the model factory of the BO experiment with
  the choice of inducing points, the two factories for optimiser and likelihood taken
  as one, the two fitting procedures, the acquisition factory, the model's
  \<open>resample_weights\<close>, and the libraries behind \<open>optimize_acqf_manifold\<close>. The
  acquisition function holds a reference to the model: \<open>acqf_factory\<close> returns a
  function of the model's current state.
\<close>

record ('p, 'm, 'o, 'acq, 'cand, 's) bo_env =
  target_function :: "'p \<Rightarrow> pyerr + fl"
  shape_last :: "'p list \<Rightarrow> int"
  sphere_kmeans_centers :: "'p list \<Rightarrow> int \<Rightarrow> 'p list"
  bo_create_model :: "string \<Rightarrow> 'p list \<Rightarrow> fl list \<Rightarrow> 'p list \<Rightarrow> pyerr + 'm"
  optimizer_mll_factory :: "'m \<Rightarrow> real \<Rightarrow> fl list \<Rightarrow> pyerr + 'o"
  fit_gpytorch_mll :: "'o \<Rightarrow> 'm \<Rightarrow> pyerr + 'm"
  fit :: "'m \<Rightarrow> 'o \<Rightarrow> 'p list \<Rightarrow> fl list \<Rightarrow> int \<Rightarrow> pyerr + 'm"
  acqf_factory :: "'m \<Rightarrow> fl \<Rightarrow> pyerr + ('m \<Rightarrow> 'acq)"
  model_resample_weights :: "'m \<Rightarrow> 'm"
  optim :: "('acq, 'cand, 'p \<times> 's) optim_env"

text \<open>
  The calls to the collaborators are recorded in order, each with the iteration that
  makes it. The record is only observed.
\<close>

datatype bo_call =
    CreateModel int string
  | FitExact int
  | FitDeep int int
  | AcqfFactory int
  | ResampleWeights int
  | OptimizeAcqfManifold int
  | TargetFunction int
  | LogMetrics int

record 'p bo_state =
  obs_x :: "'p list"
  obs_y :: "fl list"
  best_x :: 'p
  best_y :: fl
  bo_model_name :: string
  calls :: "bo_call list"

text \<open>
  The result of \<open>run_bo\<close>: the state after the last iteration, or the exception together
  with the state at the time it was raised (none when the initial observations fail).
\<close>

datatype 'p bo_result = Returned "'p bo_state" | Raised pyerr "'p bo_state option"

fun state_of :: "'p bo_result \<Rightarrow> 'p bo_state option" where
  "state_of (Returned st) = Some st"
| "state_of (Raised e sto) = sto"

text \<open>Lines 32-39: the model name for the iteration; the last branch keeps the current name.\<close>

definition select_model_name :: "bo_arguments \<Rightarrow> string \<Rightarrow> int \<Rightarrow> string \<Rightarrow> string" where
  "select_model_name ba start_model_name iteration current =
     (if (case switch_to_deep_iter ba of None \<Rightarrow> False | Some k \<Rightarrow> iteration < k)
      then ''exact''
      else if start_model_name = ''deep'' then ''deep''
      else current)"

text \<open>Lines 53-61: the fit. \<open>iteration % 0\<close> raises ZeroDivisionError.\<close>

definition fit_model ::
  "('p, 'm, 'o, 'acq, 'cand, 's) bo_env \<Rightarrow> fit_arguments \<Rightarrow> int \<Rightarrow> string \<Rightarrow> 'm \<Rightarrow> 'o
     \<Rightarrow> 'p list \<Rightarrow> fl list \<Rightarrow> bo_call list \<times> (pyerr + 'm)" where
  "fit_model env fa iteration name model om xs ys =
     (if name = ''exact'' then ([FitExact iteration], fit_gpytorch_mll env om model)
      else if name = ''deep'' then
        (if full_every_n_steps fa = 0 then ([], Inl ZeroDivisionError)
         else
           (let n = (if iteration mod full_every_n_steps fa = 0 then num_steps fa
                     else partial_num_steps fa)
            in ([FitDeep iteration n], fit env model om xs ys n)))
      else ([], Inl (ValueError (''Unknown model name: '' @ name))))"

text \<open>
  Lines 63-73: the acquisition function is built, the weights of a deep model are
  resampled once, and the acquisition function is optimised.
\<close>

definition acquire ::
  "('p, 'm, 'o, 'acq, 'cand, 's) bo_env \<Rightarrow> bo_arguments \<Rightarrow> int \<Rightarrow> string \<Rightarrow> 'm \<Rightarrow> fl
     \<Rightarrow> bo_call list \<times> (pyerr + 'p)" where
  "acquire env ba iteration name model best =
     (case acqf_factory env model best of
        Inl e \<Rightarrow> ([AcqfFactory iteration], Inl e)
      | Inr acq_function \<Rightarrow>
          (let model' = (if name = ''deep'' then model_resample_weights env model else model);
               cs = [AcqfFactory iteration]
                    @ (if name = ''deep'' then [ResampleWeights iteration] else [])
                    @ [OptimizeAcqfManifold iteration]
           in (cs, case optimize_acqf_manifold (optim env) (acq_function model') ba of
                     Inl e \<Rightarrow> Inl e
                   | Inr (new_x, v) \<Rightarrow> Inr new_x)))"

text \<open>Lines 41-73: from the observations to the next query point.\<close>

definition propose ::
  "('p, 'm, 'o, 'acq, 'cand, 's) bo_env \<Rightarrow> bo_arguments \<Rightarrow> fit_arguments \<Rightarrow> int \<Rightarrow> string
     \<Rightarrow> 'p list \<Rightarrow> fl list \<Rightarrow> fl \<Rightarrow> bo_call list \<times> (pyerr + 'p)" where
  "propose env ba fa iteration name xs ys best =
     (let inducing_points =
            (if kmeans_inducing ba \<and> shape_last env xs > kmeans_inducing_num ba
             then sphere_kmeans_centers env xs (kmeans_inducing_num ba) else xs)
      in case bo_create_model env name xs ys inducing_points of
           Inl e \<Rightarrow> ([CreateModel iteration name], Inl e)
         | Inr model \<Rightarrow>
             (case optimizer_mll_factory env model (lr fa) ys of
                Inl e \<Rightarrow> ([CreateModel iteration name], Inl e)
              | Inr om \<Rightarrow>
                  (case fit_model env fa iteration name model om xs ys of
                     (cs, Inl e) \<Rightarrow> (CreateModel iteration name # cs, Inl e)
                   | (cs, Inr fitted) \<Rightarrow>
                       (case acquire env ba iteration name fitted best of
                          (ds, r) \<Rightarrow> (CreateModel iteration name # cs @ ds, r)))))"

text \<open>
  One iteration of the loop (lines 31-93). The best point is replaced when
  \<open>new_y < best_y\<close> holds, which is false when either value is NaN.
\<close>

definition bo_iteration ::
  "('p, 'm, 'o, 'acq, 'cand, 's) bo_env \<Rightarrow> bo_arguments \<Rightarrow> fit_arguments \<Rightarrow> string \<Rightarrow> int
     \<Rightarrow> 'p bo_state \<Rightarrow> 'p bo_result" where
  "bo_iteration env ba fa start_model_name iteration st =
     (let name = select_model_name ba start_model_name iteration (bo_model_name st);
          st1 = st\<lparr>bo_model_name := name\<rparr>
      in case propose env ba fa iteration name (obs_x st) (obs_y st) (best_y st) of
           (cs, Inl e) \<Rightarrow> Raised e (Some (st1\<lparr>calls := calls st @ cs\<rparr>))
         | (cs, Inr new_x) \<Rightarrow>
             (case target_function env new_x of
                Inl e \<Rightarrow> Raised e (Some (st1\<lparr>calls := calls st @ cs @ [TargetFunction iteration]\<rparr>))
              | Inr new_y \<Rightarrow>
                  Returned
                    (st1\<lparr>obs_x := obs_x st @ [new_x],
                         obs_y := obs_y st @ [new_y],
                         best_x := (if fl_less new_y (best_y st) then new_x else best_x st),
                         best_y := (if fl_less new_y (best_y st) then new_y else best_y st),
                         calls := calls st @ cs @ [TargetFunction iteration, LogMetrics iteration]\<rparr>)))"

text \<open>The loop over \<open>range(num_iter)\<close>; an exception ends it.\<close>

fun bo_loop ::
  "('p, 'm, 'o, 'acq, 'cand, 's) bo_env \<Rightarrow> bo_arguments \<Rightarrow> fit_arguments \<Rightarrow> string \<Rightarrow> int list
     \<Rightarrow> 'p bo_state \<Rightarrow> 'p bo_result" where
  "bo_loop env ba fa start_model_name [] st = Returned st"
| "bo_loop env ba fa start_model_name (i # is) st =
     (case bo_iteration env ba fa start_model_name i st of
        Raised e sto \<Rightarrow> Raised e sto
      | Returned st' \<Rightarrow> bo_loop env ba fa start_model_name is st')"

text \<open>The objective on a batch of points: the values in order, or the first exception.\<close>

fun eval_all :: "('p \<Rightarrow> pyerr + 'v) \<Rightarrow> 'p list \<Rightarrow> pyerr + 'v list" where
  "eval_all f [] = Inr []"
| "eval_all f (p # ps) =
     (case f p of
        Inl e \<Rightarrow> Inl e
      | Inr v \<Rightarrow> (case eval_all f ps of Inl e \<Rightarrow> Inl e | Inr vs \<Rightarrow> Inr (v # vs)))"

text \<open>
  \<open>run_bo\<close> (lines 20-93). \<open>model_name\<close> is the value of \<open>model_args.model_name\<close> on
  entry; the loggers and the progress bar have no part in the state.
\<close>

definition run_bo ::
  "('p, 'm, 'o, 'acq, 'cand, 's) bo_env \<Rightarrow> 'p list \<Rightarrow> bo_arguments \<Rightarrow> string \<Rightarrow> fit_arguments
     \<Rightarrow> 'p bo_result" where
  "run_bo env initial_data ba model_name0 fa =
     (case eval_all (target_function env) initial_data of
        Inl e \<Rightarrow> Raised e None
      | Inr ys \<Rightarrow>
          (case tensor_argmin ys of
             Inl e \<Rightarrow> Raised e None
           | Inr i \<Rightarrow>
               (case tensor_min ys of
                  Inl e \<Rightarrow> Raised e None
                | Inr m \<Rightarrow>
                    bo_loop env ba fa model_name0 (map int [0 ..< nat (num_iter ba)])
                      \<lparr>obs_x = initial_data, obs_y = ys, best_x = initial_data ! i, best_y = m,
                       bo_model_name = model_name0, calls = []\<rparr>)))"

text \<open>
  The switch schedule of the specification: the exact family before iteration \<open>k\<close>, the
  deep family from iteration \<open>k\<close> on.
\<close>

definition scheduled_name :: "int \<Rightarrow> int \<Rightarrow> string" where
  "scheduled_name k i = (if i < k then ''exact'' else ''deep'')"



text \<open>
  Deterministic stand-ins for the collaborators, to run the loop on concrete inputs:
  points are natural numbers, the objective is \<open>f\<close> (never NaN), the model is the number of
  observations it was created from and the optimiser proposes \<open>next_point\<close> of it.
\<close>

definition example_env ::
  "(nat \<Rightarrow> real) \<Rightarrow> (nat \<Rightarrow> nat) \<Rightarrow> (nat, nat, unit, nat, fl tensor, real) bo_env" where
  "example_env f next_point =
     \<lparr>target_function = (\<lambda>p. Inr (Fin (f p))),
      shape_last = (\<lambda>xs. 3),
      sphere_kmeans_centers = (\<lambda>xs k. xs),
      bo_create_model = (\<lambda>name xs ys ip. Inr (length xs)),
      optimizer_mll_factory = (\<lambda>m l ys. Inr ()),
      fit_gpytorch_mll = (\<lambda>om m. Inr m),
      fit = (\<lambda>m om xs ys n. Inr m),
      acqf_factory = (\<lambda>m best. Inr (\<lambda>m'. m')),
      model_resample_weights = (\<lambda>m. m),
      optim =
        \<lparr>gen_batch_initial_conditions =
           (\<lambda>acq q' nr rs mf. Inr \<lparr>shape = [1, 1, 3], entries = [Fin 0, Fin 0, Fin 1]\<rparr>),
         gen_candidates_manifold = (\<lambda>ic acq mf opt. Inr ic),
         optimize_acqf =
           (\<lambda>acq q' nr rs gen_candidates ic.
              case gen_candidates ic acq of Inl e \<Rightarrow> Inl e | Inr c \<Rightarrow> Inr (next_point acq, 0))\<rparr>\<rparr>"

definition example_fit_arguments :: fit_arguments where
  "example_fit_arguments = \<lparr>lr = 1 / 100, num_steps = 10, full_every_n_steps = 5, partial_num_steps = 2\<rparr>"

section \<open>Verification\<close>

subsection \<open>The wrapper's forward pass and resampling flag\<close>

text \<open>
  C9. For an input of at least two dimensions, \<open>forward\<close> hands the wrapped model the
  input with the dimension before the last removed when that dimension has size 1 (the
  entries are untouched), and the input itself otherwise; the hidden-sampling method and
  the resampling flag are passed on as given.
\<close>

theorem forward_squeezes_singleton:
  assumes "2 \<le> length (shape X)"
  shows "forward call gp X m r =
    (let X' = (if shape X ! (length (shape X) - 2) = 1
               then X\<lparr>shape := butlast (butlast (shape X)) @ [last (shape X)]\<rparr> else X);
         res = call (base_model gp) X' m r
     in (fst res, gp\<lparr>base_model := snd res, base_calls := base_calls gp @ [(X', m, r)]\<rparr>))"
proof -
  let ?n = "length (shape X)"
  have a: "take (?n - 2) (shape X) = butlast (butlast (shape X))"
    by (simp add: butlast_conv_take numeral_2_eq_2)
  have b: "drop (?n - Suc 0) (shape X) = [last (shape X)]"
    using assms by (cases "shape X" rule: rev_cases) auto
  show ?thesis using assms
    by (auto simp: forward_def shape_at_m2_def squeeze_m2_def Let_def a b split: prod.splits)
qed

theorem forward_squeezes_singleton_witness:
  "2 \<le> length (shape \<lparr>shape = [3, 1, 2], entries = [1, 2, 3, 4, 5, 6 :: int]\<rparr>) \<and>
   base_calls (snd (forward (\<lambda>b X m r. (Inr (shape X), b)) (botorch_gp_init (0 :: nat) ''naive'')
      \<lparr>shape = [3, 1, 2], entries = [1, 2, 3, 4, 5, 6 :: int]\<rparr> ''naive'' True))
     = [(\<lparr>shape = [3, 2], entries = [1, 2, 3, 4, 5, 6]\<rparr>, ''naive'', True)] \<and>
   base_calls (snd (forward (\<lambda>b X m r. (Inr (shape X), b)) (botorch_gp_init (0 :: nat) ''naive'')
      \<lparr>shape = [3, 2], entries = [1, 2, 3, 4, 5, 6 :: int]\<rparr> ''naive'' False))
     = [(\<lparr>shape = [3, 2], entries = [1, 2, 3, 4, 5, 6]\<rparr>, ''naive'', False)]"
  using forward_squeezes_singleton
          [of "\<lparr>shape = [3, 1, 2], entries = [1, 2, 3, 4, 5, 6 :: int]\<rparr>"
              "\<lambda>b X m r. (Inr (shape X), b)" "botorch_gp_init (0 :: nat) ''naive''" "''naive''" True]
        forward_squeezes_singleton
          [of "\<lparr>shape = [3, 2], entries = [1, 2, 3, 4, 5, 6 :: int]\<rparr>"
              "\<lambda>b X m r. (Inr (shape X), b)" "botorch_gp_init (0 :: nat) ''naive''" "''naive''" False]
  by (simp add: botorch_gp_init_def Let_def)











subsection \<open>Model construction\<close>

text \<open>
  C8. \<open>create_model\<close> never reads the fields \<open>space_name\<close> and \<open>space_dim\<close>: changing
  them does not change its result. Every model it constructs is given the inducing
  points \<open>sphere_uniform_grid(num_inducing)\<close>, and the space it is given is
  \<open>Hypersphere(dim=2)\<close>; the Euclidean deep GP is the one class that takes no space.
\<close>

theorem create_model_ignores_space_fields:
  "create_model grid (ma\<lparr>space_name := s, space_dim := d\<rparr>) = create_model grid ma \<and>
   (\<forall>m. create_model grid ma = Inr m \<longrightarrow>
      model_inducing_points m = grid (num_inducing ma) \<and>
      model_space m = (if model_name ma = ''euclidean'' then None else Some (Hypersphere 2)))"
  by (auto simp: create_model_def Let_def split: sum.splits if_splits)

theorem create_model_ignores_space_fields_witness:
  "create_model (\<lambda>n. [0 ..< nat n]) (default_model_arguments\<lparr>space_name := ''torus'', space_dim := 7\<rparr>)
     = create_model (\<lambda>n. [0 ..< nat n]) default_model_arguments \<and>
   create_model (\<lambda>n. [0 ..< nat n]) default_model_arguments
     = Inr (GeometricManifoldDeepGP (Hypersphere 2) [0 ..< 60] (GammaPrior 1 1) 1 20 False True (5 / 2)
              ''intrinsic'' ''exp'') \<and>
   model_space (GeometricManifoldDeepGP (Hypersphere 2) [0 ..< 60] (GammaPrior 1 1) 1 20 False True (5 / 2)
              ''intrinsic'' ''exp'') = Some (Hypersphere 2)"
proof -
  let ?g = "\<lambda>n :: int. [0 ..< nat n]"
  have c: "create_model ?g default_model_arguments
     = Inr (GeometricManifoldDeepGP (Hypersphere 2) [0 ..< 60] (GammaPrior 1 1) 1 20 False True (5 / 2)
              ''intrinsic'' ''exp'')"
    by (simp add: create_model_def default_model_arguments_def get_outputscale_prior_def Let_def)
  note t = create_model_ignores_space_fields[where grid = ?g and ma = default_model_arguments
                 and s = "''torus''" and d = 7]
  from conjunct2[OF t] c
  have "model_space (GeometricManifoldDeepGP (Hypersphere 2) [0 ..< 60] (GammaPrior 1 1) 1 20 False True (5 / 2)
              ''intrinsic'' ''exp'') = (if model_name default_model_arguments = ''euclidean'' then None else Some (Hypersphere 2))"
    by (elim allE[of _ "GeometricManifoldDeepGP (Hypersphere 2) [0 ..< 60] (GammaPrior 1 1) 1 20 False True (5 / 2) ''intrinsic'' ''exp''"]) simp
  then have "model_space (GeometricManifoldDeepGP (Hypersphere 2) [0 ..< 60] (GammaPrior 1 1) 1 20 False True (5 / 2)
              ''intrinsic'' ''exp'') = Some (Hypersphere 2)"
    by (simp add: default_model_arguments_def)
  with conjunct1[OF t] c show ?thesis by (intro conjI)
qed

subsection \<open>The optimisation loop\<close>

lemma bo_iteration_Returned:
  assumes "bo_iteration env ba fa s i st = Returned st'"
  shows "target_function env (last (obs_x st')) = Inr (last (obs_y st')) \<and>
         obs_x st' = obs_x st @ [last (obs_x st')] \<and>
         obs_y st' = obs_y st @ [last (obs_y st')] \<and>
         best_x st' = (if fl_less (last (obs_y st')) (best_y st) then last (obs_x st') else best_x st) \<and>
         best_y st' = (if fl_less (last (obs_y st')) (best_y st) then last (obs_y st') else best_y st) \<and>
         bo_model_name st' = select_model_name ba s i (bo_model_name st) \<and>
         calls st' = calls st
           @ fst (propose env ba fa i (select_model_name ba s i (bo_model_name st))
                    (obs_x st) (obs_y st) (best_y st))
           @ [TargetFunction i, LogMetrics i]"
  using assms
  by (auto simp: bo_iteration_def Let_def split: prod.splits sum.splits)

lemma bo_iteration_Raised:
  assumes "bo_iteration env ba fa s i st = Raised e sto"
  shows "\<exists>st'. sto = Some st' \<and>
           obs_x st' = obs_x st \<and> obs_y st' = obs_y st \<and>
           best_x st' = best_x st \<and> best_y st' = best_y st \<and>
           bo_model_name st' = select_model_name ba s i (bo_model_name st) \<and>
           (calls st' = calls st
             @ fst (propose env ba fa i (select_model_name ba s i (bo_model_name st))
                      (obs_x st) (obs_y st) (best_y st)) \<or>
            calls st' = calls st
             @ fst (propose env ba fa i (select_model_name ba s i (bo_model_name st))
                      (obs_x st) (obs_y st) (best_y st)) @ [TargetFunction i])"
  using assms
  by (auto simp: bo_iteration_def Let_def split: prod.splits sum.splits)

lemma ManifoldGenCandidates_maximize:
  "ManifoldGenCandidates env (ba\<lparr>maximize := b\<rparr>) = ManifoldGenCandidates env ba"
  by (simp add: fun_eq_iff ManifoldGenCandidates_def manifold_def optimizer_def
        cong: sum.case_cong)

lemma optimize_acqf_manifold_maximize:
  "optimize_acqf_manifold env acq (ba\<lparr>maximize := b\<rparr>) = optimize_acqf_manifold env acq ba"
  by (simp add: optimize_acqf_manifold_def manifold_def ManifoldGenCandidates_maximize
        cong: sum.case_cong if_cong)

lemma acquire_maximize:
  "acquire env (ba\<lparr>maximize := b\<rparr>) i name model best = acquire env ba i name model best"
  by (simp add: acquire_def optimize_acqf_manifold_maximize Let_def cong: sum.case_cong)

lemma propose_maximize:
  "propose env (ba\<lparr>maximize := b\<rparr>) fa i name xs ys best = propose env ba fa i name xs ys best"
  by (simp add: propose_def acquire_maximize Let_def cong: sum.case_cong prod.case_cong)

lemma bo_iteration_maximize:
  "bo_iteration env (ba\<lparr>maximize := b\<rparr>) fa s i st = bo_iteration env ba fa s i st"
  by (simp add: bo_iteration_def propose_maximize select_model_name_def Let_def
        cong: sum.case_cong prod.case_cong)

lemma bo_loop_maximize:
  "bo_loop env (ba\<lparr>maximize := b\<rparr>) fa s js st = bo_loop env ba fa s js st"
  by (induction js arbitrary: st) (simp_all add: bo_iteration_maximize cong: bo_result.case_cong)

lemma run_bo_maximize:
  "run_bo env initial_data (ba\<lparr>maximize := b\<rparr>) start_name fa
     = run_bo env initial_data ba start_name fa"
  by (simp add: run_bo_def bo_loop_maximize cong: sum.case_cong)

lemmas run_bo_eval =
  run_bo_def example_env_def example_fit_arguments_def default_bo_arguments_def
  tensor_argmin_def tensor_min_def fl_min_def fl_less_def bo_iteration_def propose_def
  fit_model_def acquire_def
  optimize_acqf_manifold_def manifold_def manifold_class_from_name_def optimizer_def
  optimizer_class_from_name_def ManifoldGenCandidates_def isnan_any_def squeeze_m2_def
  select_model_name_def Let_def

text \<open>
  C1. \<open>run_bo\<close> does not read the flag \<open>maximize\<close>: a run with \<open>maximize = True\<close> is the
  run with \<open>maximize = False\<close>, for every objective and every behaviour of the
  collaborators. It starts from \<open>argmin\<close> and \<open>min\<close> of the initial values and replaces
  the best point when \<open>new_y < best_y\<close>. So with \<open>maximize = True\<close>, from the initial
  point 1 with value 1 and the proposed point 2 with value 2, the run returns the best
  value 1 at the point 1, although the value 2 was observed, which is greater.
\<close>

theorem run_bo_ignores_maximize:
  "run_bo env initial_data (ba\<lparr>maximize := True\<rparr>) start_name fa
     = run_bo env initial_data (ba\<lparr>maximize := False\<rparr>) start_name fa \<and>
   maximize (default_bo_arguments\<lparr>maximize := True, num_iter := 1\<rparr>) \<and>
   run_bo (example_env real (\<lambda>n. 2)) [1]
      (default_bo_arguments\<lparr>maximize := True, num_iter := 1\<rparr>) ''exact'' example_fit_arguments
     = Returned \<lparr>obs_x = [1, 2], obs_y = [Fin 1, Fin 2], best_x = 1, best_y = Fin 1,
             bo_model_name = ''exact'',
             calls = [CreateModel 0 ''exact'', FitExact 0, AcqfFactory 0, OptimizeAcqfManifold 0,
                      TargetFunction 0, LogMetrics 0]\<rparr> \<and>
   fl_less (Fin 1) (Fin 2)"
proof -
  have a: "run_bo env initial_data (ba\<lparr>maximize := True\<rparr>) start_name fa
     = run_bo env initial_data (ba\<lparr>maximize := False\<rparr>) start_name fa"
    by (simp only: run_bo_maximize)
  have b: "maximize (default_bo_arguments\<lparr>maximize := True, num_iter := 1\<rparr>) \<and>
   run_bo (example_env real (\<lambda>n. 2)) [1]
      (default_bo_arguments\<lparr>maximize := True, num_iter := 1\<rparr>) ''exact'' example_fit_arguments
     = Returned \<lparr>obs_x = [1, 2], obs_y = [Fin 1, Fin 2], best_x = 1, best_y = Fin 1,
             bo_model_name = ''exact'',
             calls = [CreateModel 0 ''exact'', FitExact 0, AcqfFactory 0, OptimizeAcqfManifold 0,
                      TargetFunction 0, LogMetrics 0]\<rparr> \<and>
   fl_less (Fin 1) (Fin 2)"
    by (simp add: run_bo_eval)
  from a b show ?thesis by (rule conjI)
qed

text \<open>
  A NaN among the initial values becomes the best value, at the point of the first NaN,
  and no later value replaces it: the comparison with NaN is false.
\<close>

lemma run_bo_nan_initial_value:
  "run_bo ((example_env real (\<lambda>n. 2))
             \<lparr>target_function := (\<lambda>p. Inr (if p = 1 then NaN else Fin (real p)))\<rparr>) [5, 1, 3]
      (default_bo_arguments\<lparr>num_iter := 1\<rparr>) ''exact'' example_fit_arguments
     = Returned \<lparr>obs_x = [5, 1, 3, 2], obs_y = [Fin 5, NaN, Fin 3, Fin 2], best_x = 1, best_y = NaN,
             bo_model_name = ''exact'',
             calls = [CreateModel 0 ''exact'', FitExact 0, AcqfFactory 0, OptimizeAcqfManifold 0,
                      TargetFunction 0, LogMetrics 0]\<rparr>"
  by (simp add: run_bo_eval)

lemma fit_model_calls:
  "fit_model env fa i name model om xs ys = (cs, r) \<Longrightarrow> CreateModel j n \<notin> set cs"
  by (auto simp: fit_model_def Let_def split: if_splits)

lemma acquire_calls:
  "acquire env ba i name model best = (cs, r) \<Longrightarrow> CreateModel j n \<notin> set cs"
  by (auto simp: acquire_def Let_def split: sum.splits if_splits)

lemma propose_calls:
  "CreateModel j n \<in> set (fst (propose env ba fa i name xs ys best)) \<longleftrightarrow> j = i \<and> n = name"
  by (auto simp: propose_def Let_def split: sum.splits prod.splits
           dest: fit_model_calls acquire_calls)

lemma select_model_name_deep:
  "switch_to_deep_iter ba = Some k \<Longrightarrow>
     select_model_name ba ''deep'' i cur = (scheduled_name k i)"
  by (simp add: select_model_name_def scheduled_name_def)

lemma bo_loop_names:
  assumes "switch_to_deep_iter ba = Some k"
    and "\<forall>j n. CreateModel j n \<in> set (calls st) \<longrightarrow> n = (scheduled_name k j)"
    and "state_of (bo_loop env ba fa ''deep'' js st) = Some st'"
  shows "\<forall>j n. CreateModel j n \<in> set (calls st') \<longrightarrow> n = (scheduled_name k j)"
  using assms
proof (induction js arbitrary: st)
  case Nil
  then show ?case by simp
next
  case (Cons i js)
  note sel = select_model_name_deep[OF Cons.prems(1)]
  show ?case
  proof (cases "bo_iteration env ba fa ''deep'' i st")
    case (Returned st1)
    from bo_iteration_Returned[OF Returned]
    have c: "calls st1 = calls st
           @ fst (propose env ba fa i (scheduled_name k i)
                    (obs_x st) (obs_y st) (best_y st))
           @ [TargetFunction i, LogMetrics i]"
      by (simp add: sel)
    have inv1: "\<forall>j n. CreateModel j n \<in> set (calls st1) \<longrightarrow> n = (scheduled_name k j)"
      using Cons.prems(2) unfolding c by (auto simp: propose_calls)
    from Cons.prems(3) Returned have "state_of (bo_loop env ba fa ''deep'' js st1) = Some st'" by simp
    with Cons.prems(1) inv1 show ?thesis by (rule Cons.IH)
  next
    case (Raised e sto)
    from bo_iteration_Raised[OF Raised] obtain st1 where s1: "sto = Some st1"
      and c: "calls st1 = calls st
             @ fst (propose env ba fa i (scheduled_name k i)
                      (obs_x st) (obs_y st) (best_y st)) \<or>
            calls st1 = calls st
             @ fst (propose env ba fa i (scheduled_name k i)
                      (obs_x st) (obs_y st) (best_y st)) @ [TargetFunction i]"
      unfolding sel by (elim exE conjE)
    from Cons.prems(3) Raised s1 have e: "st' = st1" by simp
    from c show ?thesis
      using Cons.prems(2) unfolding e by (auto simp: propose_calls)
  qed
qed

lemma bo_loop_all_iterations:
  assumes "bo_loop env ba fa s js st = Returned st'"
  shows "set (calls st) \<subseteq> set (calls st') \<and> (\<forall>i \<in> set js. \<exists>n. CreateModel i n \<in> set (calls st'))"
  using assms
proof (induction js arbitrary: st)
  case Nil
  then show ?case by simp
next
  case (Cons i js)
  show ?case
  proof (cases "bo_iteration env ba fa s i st")
    case (Returned st1)
    from bo_iteration_Returned[OF Returned]
    have c: "calls st1 = calls st
           @ fst (propose env ba fa i (select_model_name ba s i (bo_model_name st))
                    (obs_x st) (obs_y st) (best_y st))
           @ [TargetFunction i, LogMetrics i]"
      by simp
    have here: "CreateModel i (select_model_name ba s i (bo_model_name st)) \<in> set (calls st1)"
      unfolding c by (simp add: propose_calls)
    have sub: "set (calls st) \<subseteq> set (calls st1)" unfolding c by auto
    from Cons.prems Returned have "bo_loop env ba fa s js st1 = Returned st'" by simp
    from Cons.IH[OF this] here sub show ?thesis by auto
  next
    case (Raised e sto)
    with Cons.prems show ?thesis by simp
  qed
qed

lemma range_num_iter: "0 \<le> i \<Longrightarrow> i < n \<Longrightarrow> i \<in> set (map int [0 ..< nat n])"
proof -
  assume "0 \<le> i" "i < n"
  then have "nat i \<in> set [0 ..< nat n]" and "int (nat i) = i" by simp_all
  then show ?thesis by (metis image_eqI set_map)
qed

text \<open>
  C2, for a run whose configured model name is \<open>deep\<close>. With the switch set to iteration
  \<open>k\<close>, every model the loop creates at an iteration \<open>i < k\<close> is of the exact family
  and every model created at an iteration \<open>i \<ge> k\<close> of the deep family, whatever the
  objective, the optimiser and the other collaborators return; a run that returns has
  created a model at every iteration below \<open>num_iter\<close>.
\<close>

theorem run_bo_switch_schedule:
  assumes sw: "switch_to_deep_iter ba = Some k"
    and st: "state_of (run_bo env initial_data ba ''deep'' fa) = Some st"
  shows "(\<forall>i n. CreateModel i n \<in> set (calls st) \<longrightarrow> n = (scheduled_name k i)) \<and>
         (run_bo env initial_data ba ''deep'' fa = Returned st \<longrightarrow>
            (\<forall>i. 0 \<le> i \<and> i < num_iter ba \<longrightarrow>
               CreateModel i (scheduled_name k i) \<in> set (calls st)))"
proof -
  from st obtain st0 where
    l: "run_bo env initial_data ba ''deep'' fa
          = bo_loop env ba fa ''deep'' (map int [0 ..< nat (num_iter ba)]) st0"
    and c0: "calls st0 = []"
    by (auto simp: run_bo_def split: sum.splits)
  have inv0: "\<forall>j n. CreateModel j n \<in> set (calls st0) \<longrightarrow> n = (scheduled_name k j)"
    by (simp add: c0)
  from st have st': "state_of (bo_loop env ba fa ''deep'' (map int [0 ..< nat (num_iter ba)]) st0) = Some st"
    unfolding l .
  have names: "\<forall>i n. CreateModel i n \<in> set (calls st) \<longrightarrow> n = (scheduled_name k i)"
    using sw inv0 st' by (rule bo_loop_names)
  have all: "run_bo env initial_data ba ''deep'' fa = Returned st \<longrightarrow>
            (\<forall>i. 0 \<le> i \<and> i < num_iter ba \<longrightarrow>
               CreateModel i (scheduled_name k i) \<in> set (calls st))"
  proof (intro impI allI)
    fix i assume r: "run_bo env initial_data ba ''deep'' fa = Returned st"
      and i: "0 \<le> i \<and> i < num_iter ba"
    from r have "bo_loop env ba fa ''deep'' (map int [0 ..< nat (num_iter ba)]) st0 = Returned st"
      unfolding l .
    from bo_loop_all_iterations[OF this] range_num_iter[of i "num_iter ba"] i
    obtain n where n: "CreateModel i n \<in> set (calls st)" by auto
    with names have "n = (scheduled_name k i)" by simp
    with n show "CreateModel i (scheduled_name k i) \<in> set (calls st)" by simp
  qed
  from names all show ?thesis by (rule conjI)
qed

lemma range_2: "map int [0 ..< nat 2] = [0, 1]"
  by (simp add: eval_nat_numeral)

theorem run_bo_switch_schedule_witness:
  "switch_to_deep_iter (default_bo_arguments\<lparr>num_iter := 2, switch_to_deep_iter := Some 1\<rparr>) = Some 1 \<and>
   calls (the (state_of (run_bo (example_env real (\<lambda>n. 2)) [1]
      (default_bo_arguments\<lparr>num_iter := 2, switch_to_deep_iter := Some 1\<rparr>) ''deep''
      example_fit_arguments)))
     = [CreateModel 0 ''exact'', FitExact 0, AcqfFactory 0, OptimizeAcqfManifold 0,
        TargetFunction 0, LogMetrics 0,
        CreateModel 1 ''deep'', FitDeep 1 2, AcqfFactory 1, ResampleWeights 1,
        OptimizeAcqfManifold 1, TargetFunction 1, LogMetrics 1] \<and>
   CreateModel 0 (scheduled_name 1 0) \<in> set (calls (the (state_of (run_bo (example_env real (\<lambda>n. 2)) [1]
      (default_bo_arguments\<lparr>num_iter := 2, switch_to_deep_iter := Some 1\<rparr>) ''deep''
      example_fit_arguments)))) \<and>
   CreateModel 1 (scheduled_name 1 1) \<in> set (calls (the (state_of (run_bo (example_env real (\<lambda>n. 2)) [1]
      (default_bo_arguments\<lparr>num_iter := 2, switch_to_deep_iter := Some 1\<rparr>) ''deep''
      example_fit_arguments))))"
proof -
  define ba where "ba = default_bo_arguments\<lparr>num_iter := 2, switch_to_deep_iter := Some 1\<rparr>"
  define st where "st = \<lparr>obs_x = [1, 2, 2 :: nat], obs_y = [Fin 1, Fin 2, Fin 2], best_x = 1, best_y = Fin 1,
     bo_model_name = ''deep'',
     calls = [CreateModel 0 ''exact'', FitExact 0, AcqfFactory 0, OptimizeAcqfManifold 0,
        TargetFunction 0, LogMetrics 0,
        CreateModel 1 ''deep'', FitDeep 1 2, AcqfFactory 1, ResampleWeights 1,
        OptimizeAcqfManifold 1, TargetFunction 1, LogMetrics 1]\<rparr>"
  have sw: "switch_to_deep_iter ba = Some 1" by (simp add: ba_def)
  have ni: "num_iter ba = 2" by (simp add: ba_def)
  have r: "run_bo (example_env real (\<lambda>n. 2)) [1] ba ''deep'' example_fit_arguments = Returned st"
    unfolding run_bo_def ni range_2 by (simp add: ba_def st_def run_bo_eval)
  then have s: "state_of (run_bo (example_env real (\<lambda>n. 2)) [1] ba ''deep'' example_fit_arguments) = Some st"
    by simp
  note t = run_bo_switch_schedule[OF sw s]
  from conjunct2[OF t] r
  have a: "\<forall>i. 0 \<le> i \<and> i < num_iter ba \<longrightarrow> CreateModel i (scheduled_name 1 i) \<in> set (calls st)"
    by (rule mp)
  have a0: "CreateModel 0 (scheduled_name 1 0) \<in> set (calls st)"
    using a[rule_format, of 0] by (simp add: ni)
  have a1: "CreateModel 1 (scheduled_name 1 1) \<in> set (calls st)"
    using a[rule_format, of 1] by (simp add: ni)
  have c: "calls st = [CreateModel 0 ''exact'', FitExact 0, AcqfFactory 0, OptimizeAcqfManifold 0,
        TargetFunction 0, LogMetrics 0,
        CreateModel 1 ''deep'', FitDeep 1 2, AcqfFactory 1, ResampleWeights 1,
        OptimizeAcqfManifold 1, TargetFunction 1, LogMetrics 1]"
    by (simp add: st_def)
  have th: "the (state_of (run_bo (example_env real (\<lambda>n. 2)) [1]
      (default_bo_arguments\<lparr>num_iter := 2, switch_to_deep_iter := Some 1\<rparr>) ''deep''
      example_fit_arguments)) = st"
    using s unfolding ba_def by simp
  show ?thesis
    unfolding th using sw[unfolded ba_def] c a0 a1 by (intro conjI)
qed

text \<open>
  Without the condition on the configured name the schedule does not switch: a run
  configured with the name \<open>exact\<close> and the switch at iteration 1 still creates an
  exact model at iteration 1.
\<close>

theorem run_bo_switch_counterexample:
  "switch_to_deep_iter (default_bo_arguments\<lparr>num_iter := 2, switch_to_deep_iter := Some 1\<rparr>) = Some 1 \<and>
   run_bo (example_env real (\<lambda>n. 2)) [1]
      (default_bo_arguments\<lparr>num_iter := 2, switch_to_deep_iter := Some 1\<rparr>) ''exact''
      example_fit_arguments
     = Returned \<lparr>obs_x = [1, 2, 2], obs_y = [Fin 1, Fin 2, Fin 2], best_x = 1, best_y = Fin 1,
         bo_model_name = ''exact'',
         calls = [CreateModel 0 ''exact'', FitExact 0, AcqfFactory 0, OptimizeAcqfManifold 0,
                  TargetFunction 0, LogMetrics 0,
                  CreateModel 1 ''exact'', FitExact 1, AcqfFactory 1, OptimizeAcqfManifold 1,
                  TargetFunction 1, LogMetrics 1]\<rparr>"
proof -
  define ba where "ba = default_bo_arguments\<lparr>num_iter := 2, switch_to_deep_iter := Some 1\<rparr>"
  have sw: "switch_to_deep_iter ba = Some 1" by (simp add: ba_def)
  have ni: "num_iter ba = 2" by (simp add: ba_def)
  have r: "run_bo (example_env real (\<lambda>n. 2)) [1] ba ''exact'' example_fit_arguments
     = Returned \<lparr>obs_x = [1, 2, 2], obs_y = [Fin 1, Fin 2, Fin 2], best_x = 1, best_y = Fin 1,
         bo_model_name = ''exact'',
         calls = [CreateModel 0 ''exact'', FitExact 0, AcqfFactory 0, OptimizeAcqfManifold 0,
                  TargetFunction 0, LogMetrics 0,
                  CreateModel 1 ''exact'', FitExact 1, AcqfFactory 1, OptimizeAcqfManifold 1,
                  TargetFunction 1, LogMetrics 1]\<rparr>"
    unfolding run_bo_def ni range_2 by (simp add: ba_def run_bo_eval)
  from sw r show ?thesis unfolding ba_def by (rule conjI)
qed

subsection \<open>Resampling within an iteration\<close>






subsection \<open>The acquisition optimiser and the name resolvers\<close>

text \<open>
  C4. With a known manifold name, \<open>optimize_acqf_manifold\<close> first generates the batch of
  initial conditions (an exception of the generator is passed on). If any coordinate of
  the batch is NaN it fails with an AssertionError whatever the refinement procedures
  are, so none of them has run; if no coordinate is NaN (and the batch has the dimension
  \<open>-2\<close> that is squeezed), it goes on to \<open>optimize_acqf\<close> with the squeezed batch.
\<close>

theorem optimize_acqf_manifold_nan_check:
  assumes m: "manifold ba = Inr mf"
  shows "(gen_batch_initial_conditions env acq (q ba) (num_restarts ba) (raw_samples ba) mf = Inl e
            \<longrightarrow> optimize_acqf_manifold env acq ba = Inl e) \<and>
         (gen_batch_initial_conditions env acq (q ba) (num_restarts ba) (raw_samples ba) mf = Inr bic
            \<and> NaN \<in> set (entries bic)
            \<longrightarrow> (\<forall>oa gc. optimize_acqf_manifold
                            (env\<lparr>optimize_acqf := oa, gen_candidates_manifold := gc\<rparr>) acq ba
                          = Inl (AssertionError ''Generated nan batch initial conditions''))) \<and>
         (gen_batch_initial_conditions env acq (q ba) (num_restarts ba) (raw_samples ba) mf = Inr bic
            \<and> NaN \<notin> set (entries bic) \<and> 2 \<le> length (shape bic)
            \<longrightarrow> (\<exists>ic. squeeze_m2 bic = Inr ic \<and>
                   optimize_acqf_manifold env acq ba
                     = optimize_acqf env acq (q ba) (num_restarts ba) (raw_samples ba)
                         (ManifoldGenCandidates env ba) ic))"
  using m
  by (auto simp: optimize_acqf_manifold_def isnan_any_def squeeze_m2_def Let_def
        ManifoldGenCandidates_def fun_eq_iff manifold_def optimizer_def split: sum.splits)

theorem optimize_acqf_manifold_nan_check_witness:
  "optimize_acqf_manifold
      ((optim (example_env real (\<lambda>n. 2)))
         \<lparr>gen_batch_initial_conditions :=
            (\<lambda>acq q' nr rs mf. Inr \<lparr>shape = [1, 1, 3], entries = [Fin 0, NaN, Fin 1]\<rparr>)\<rparr>)
      0 default_bo_arguments
     = Inl (AssertionError ''Generated nan batch initial conditions'') \<and>
   optimize_acqf_manifold (optim (example_env real (\<lambda>n. 2))) 0 default_bo_arguments = Inr (2, 0)"
proof -
  define env where "env = optim (example_env real (\<lambda>n. 2))"
  define env' where "env' = env\<lparr>gen_batch_initial_conditions :=
            (\<lambda>acq q' nr rs mf. Inr \<lparr>shape = [1, 1, 3], entries = [Fin 0, NaN, Fin 1]\<rparr>)\<rparr>"
  define mf where "mf = ManifoldObj Sphere 3"
  have m: "manifold default_bo_arguments = Inr mf"
    by (simp add: manifold_def manifold_class_from_name_def default_bo_arguments_def mf_def)
  have g': "gen_batch_initial_conditions env' (0 :: nat) (q default_bo_arguments)
              (num_restarts default_bo_arguments) (raw_samples default_bo_arguments) mf
            = Inr \<lparr>shape = [1, 1, 3], entries = [Fin 0, NaN, Fin 1]\<rparr>
          \<and> NaN \<in> set (entries \<lparr>shape = [1, 1, 3], entries = [Fin 0, NaN, Fin 1]\<rparr>)"
    by (simp add: env'_def)
  have same: "env'\<lparr>optimize_acqf := optimize_acqf env', gen_candidates_manifold := gen_candidates_manifold env'\<rparr> = env'"
    by simp
  note t' = optimize_acqf_manifold_nan_check[OF m, where env = env' and acq = "0 :: nat"
              and bic = "\<lparr>shape = [1, 1, 3], entries = [Fin 0, NaN, Fin 1]\<rparr>"]
  from conjunct1[OF conjunct2[OF t']] g'
  have "\<forall>oa gc. optimize_acqf_manifold (env'\<lparr>optimize_acqf := oa, gen_candidates_manifold := gc\<rparr>)
            (0 :: nat) default_bo_arguments
          = Inl (AssertionError ''Generated nan batch initial conditions'')"
    by (rule mp)
  then have "optimize_acqf_manifold
      (env'\<lparr>optimize_acqf := optimize_acqf env', gen_candidates_manifold := gen_candidates_manifold env'\<rparr>)
      (0 :: nat) default_bo_arguments = Inl (AssertionError ''Generated nan batch initial conditions'')"
    by (elim allE)
  then have a: "optimize_acqf_manifold env' (0 :: nat) default_bo_arguments
          = Inl (AssertionError ''Generated nan batch initial conditions'')"
    unfolding same .
  have g: "gen_batch_initial_conditions env (0 :: nat) (q default_bo_arguments)
              (num_restarts default_bo_arguments) (raw_samples default_bo_arguments) mf
            = Inr \<lparr>shape = [1, 1, 3], entries = [Fin 0, Fin 0, Fin 1]\<rparr>
          \<and> NaN \<notin> set (entries \<lparr>shape = [1, 1, 3], entries = [Fin 0, Fin 0, Fin 1]\<rparr>)
          \<and> 2 \<le> length (shape \<lparr>shape = [1, 1, 3], entries = [Fin 0, Fin 0, Fin 1]\<rparr>)"
    by (simp add: env_def example_env_def)
  note t = optimize_acqf_manifold_nan_check[OF m, where env = env and acq = "0 :: nat"
              and bic = "\<lparr>shape = [1, 1, 3], entries = [Fin 0, Fin 0, Fin 1]\<rparr>"]
  from conjunct2[OF conjunct2[OF t]] g
  have "\<exists>ic. squeeze_m2 \<lparr>shape = [1, 1, 3], entries = [Fin 0, Fin 0, Fin 1]\<rparr> = Inr ic \<and>
          optimize_acqf_manifold env (0 :: nat) default_bo_arguments
            = optimize_acqf env 0 (q default_bo_arguments) (num_restarts default_bo_arguments)
                (raw_samples default_bo_arguments) (ManifoldGenCandidates env default_bo_arguments) ic"
    by (rule mp)
  then have b: "optimize_acqf_manifold env (0 :: nat) default_bo_arguments = Inr (2, 0)"
    by (auto simp: squeeze_m2_def env_def example_env_def ManifoldGenCandidates_def manifold_def
          manifold_class_from_name_def optimizer_def optimizer_class_from_name_def
          default_bo_arguments_def)
  from a b show ?thesis unfolding env'_def env_def by (rule conjI)
qed

text \<open>
  C5, as the code has it. Each resolver returns its class exactly on its closed set of
  names and raises ValueError on every other name. \<open>create_model\<close> computes the
  output-scale prior before it looks at the model name: with a non-zero
  \<open>outputscale_mean\<close> it succeeds exactly on its three names and raises ValueError on
  every other, with \<open>outputscale_mean = 0\<close> it raises ZeroDivisionError whatever the name.
  The manifold name is resolved when \<open>optimize_acqf_manifold\<close> is called, inside an
  iteration of the loop.
\<close>

theorem resolvers_closed_sets:
  "acqf_class_from_name name =
     (if name = ''log_expected_improvement'' then Inr LogExpectedImprovement
      else if name = ''expected_improvement'' then Inr ExpectedImprovement
      else Inl (ValueError (''Unknown acquisition function '' @ name))) \<and>
   manifold_class_from_name name =
     (if name = ''sphere'' then Inr Sphere else Inl (ValueError (''Unknown manifold '' @ name))) \<and>
   optimizer_class_from_name name =
     (if name = ''steepest_descent'' then Inr SteepestDescent
      else Inl (ValueError (''Unknown optimizer '' @ name))) \<and>
   (outputscale_mean ma \<noteq> 0 \<longrightarrow>
      ((\<exists>m. create_model grid ma = Inr m) \<longleftrightarrow>
          model_name ma \<in> {''geometric_manifold'', ''euclidean_manifold'', ''euclidean''}) \<and>
      (model_name ma \<notin> {''geometric_manifold'', ''euclidean_manifold'', ''euclidean''} \<longrightarrow>
          create_model grid ma = Inl (ValueError (''Unknown model name: '' @ model_name ma)))) \<and>
   (outputscale_mean ma = 0 \<longrightarrow> create_model grid ma = Inl ZeroDivisionError) \<and>
   (manifold_name ba \<noteq> ''sphere'' \<longrightarrow>
      optimize_acqf_manifold env acq ba = Inl (ValueError (''Unknown manifold '' @ manifold_name ba)))"
  by (auto simp: acqf_class_from_name_def manifold_class_from_name_def optimizer_class_from_name_def
        create_model_def get_outputscale_prior_def optimize_acqf_manifold_def manifold_def Let_def)

theorem resolvers_closed_sets_witness:
  "acqf_class_from_name ''expected_improvement'' = Inr ExpectedImprovement \<and>
   manifold_class_from_name ''expected_improvement'' = Inl (ValueError ''Unknown manifold expected_improvement'') \<and>
   (\<exists>m. create_model (\<lambda>n. [0 ..< nat n]) default_model_arguments = Inr m) \<and>
   create_model (\<lambda>n. [0 ..< nat n]) (default_model_arguments\<lparr>outputscale_mean := 0\<rparr>) = Inl ZeroDivisionError \<and>
   optimize_acqf_manifold (optim (example_env real (\<lambda>n. 2))) 0
       (default_bo_arguments\<lparr>manifold_name := ''torus''\<rparr>) = Inl (ValueError ''Unknown manifold torus'')"
proof -
  note t = resolvers_closed_sets[where name = "''expected_improvement''"
      and ma = default_model_arguments and grid = "\<lambda>n. [0 ..< nat n]"
      and ba = "default_bo_arguments\<lparr>manifold_name := ''torus''\<rparr>"
      and env = "optim (example_env real (\<lambda>n. 2))" and acq = "0 :: nat"]
  note u = resolvers_closed_sets[where name = "''expected_improvement''"
      and ma = "default_model_arguments\<lparr>outputscale_mean := 0\<rparr>" and grid = "\<lambda>n. [0 ..< nat n]"
      and ba = "default_bo_arguments\<lparr>manifold_name := ''torus''\<rparr>"
      and env = "optim (example_env real (\<lambda>n. 2))" and acq = "0 :: nat"]
  from t u show ?thesis
    by (simp add: default_model_arguments_def default_bo_arguments_def)
qed

text \<open>
  An unknown model name together with \<open>outputscale_mean = 0\<close> raises ZeroDivisionError,
  not ValueError; and a run with an unknown manifold name creates and fits the model of
  iteration 0 before the name is resolved and rejected.
\<close>

theorem resolvers_counterexample:
  "create_model (\<lambda>n. [0 ..< nat n])
      (default_model_arguments\<lparr>model_name := ''deep_ensemble'', outputscale_mean := 0\<rparr>)
     = Inl ZeroDivisionError \<and>
   run_bo (example_env real (\<lambda>n. 2)) [1]
      (default_bo_arguments\<lparr>manifold_name := ''torus'', num_iter := 1\<rparr>) ''exact''
      example_fit_arguments
     = Raised (ValueError ''Unknown manifold torus'')
         (Some \<lparr>obs_x = [1], obs_y = [Fin 1], best_x = 1, best_y = Fin 1, bo_model_name = ''exact'',
            calls = [CreateModel 0 ''exact'', FitExact 0, AcqfFactory 0, OptimizeAcqfManifold 0]\<rparr>)"
  by (simp add: create_model_def get_outputscale_prior_def default_model_arguments_def run_bo_eval)

end
